theory Spec2Isabelle
  imports Main
begin

section \<open>Values shared by the components\<close>

text \<open>
  Exceptions are values. A function of the source that can throw returns
  \<open>js_error + 'a\<close>, with \<open>Inl\<close> for the exception.
\<close>

datatype js_error =
    ReferenceError
  | TypeError
  | SyntaxError
  | SecurityError
  | QuotaExceededError
  | Error string

text \<open>
  A value produced by \<open>JSON.parse\<close> or by \<open>response.json()\<close>. An object is the
  list of its members as parsed (keys distinct); numbers are kept as integers, no claim
  depends on a fraction.
\<close>

datatype json =
    JNull
  | JBool bool
  | JNum int
  | JStr string
  | JArr "json list"
  | JObj "(string \<times> json) list"

text \<open>\<open>process.env.NEXT_PUBLIC_API_URL ?? "http://localhost:8000"\<close>\<close>

definition BASE_URL :: "string option \<Rightarrow> string" where
  "BASE_URL env_url = (case env_url of None \<Rightarrow> ''http://localhost:8000'' | Some u \<Rightarrow> u)"

text \<open>\<open>BASE.replace(/^http/, "ws")\<close>: only a leading \<open>http\<close> is rewritten.\<close>

definition WS_BASE_URL :: "string option \<Rightarrow> string" where
  "WS_BASE_URL env_url =
     (let b = BASE_URL env_url
      in if take 4 b = ''http'' then ''ws'' @ drop 4 b else b)"

section \<open>Transcript socket client (class RelayWebSocket)\<close>

subsection \<open>The browser objects the client drives\<close>

datatype ready_state = CONNECTING | OPEN | CLOSING | CLOSED

datatype ws_status = Status_connecting | Status_open | Status_closed | Status_error

text \<open>What \<open>WebSocket.send\<close> is given: an audio chunk (its bytes) or a text.\<close>

datatype frame = Binary "nat list" | Text string

text \<open>What a message event carries in \<open>event.data\<close>.\<close>

datatype event_data = TextData string | BlobData "nat list"

record websocket =
  url :: string
  readyState :: ready_state
  sent :: "frame list"

text \<open>
  One \<open>RelayWebSocket\<close> instance together with the browser objects it created.
  A \<open>WebSocket\<close> object is its index in \<open>sockets\<close> (objects are never freed, so an
  orphaned transport stays in the list and keeps its handlers). A timer handle is the
  number \<open>setTimeout\<close> returned (positive, hence truthy); \<open>timers\<close> holds the pending
  ones with the time they are due. \<open>ws_base\<close> is the module constant \<open>WS_BASE_URL\<close>,
  computed when the module loads. The two callbacks given to the constructor are
  recorders: \<open>statuses\<close> and \<open>transcripts\<close> list the calls made so far, in order; like
  the callbacks the room page passes, they return normally.
\<close>

record relay =
  ws_base :: string
  meetingId :: string
  participantId :: string
  ws :: "nat option"
  reconnectTimer :: "nat option"
  shouldReconnect :: bool
  statuses :: "ws_status list"
  transcripts :: "json list"
  sockets :: "websocket list"
  timers :: "(nat \<times> nat) list"
  timeouts_set :: nat
  now :: nat

definition RelayWebSocket :: "string option \<Rightarrow> string \<Rightarrow> string \<Rightarrow> relay" where
  "RelayWebSocket env_url mid pid =
     \<lparr> ws_base = WS_BASE_URL env_url, meetingId = mid, participantId = pid,
       ws = None, reconnectTimer = None, shouldReconnect = True,
       statuses = [], transcripts = [], sockets = [], timers = [],
       timeouts_set = 0, now = 0 \<rparr>"

definition onStatus :: "ws_status \<Rightarrow> relay \<Rightarrow> relay" where
  "onStatus s r = r\<lparr>statuses := statuses r @ [s]\<rparr>"

definition onTranscript :: "json \<Rightarrow> relay \<Rightarrow> relay" where
  "onTranscript m r = r\<lparr>transcripts := transcripts r @ [m]\<rparr>"

text \<open>
  \<open>new WebSocket(url)\<close>: a fresh transport, connecting (the URL is taken to be one
  the constructor accepts).
\<close>

definition new_WebSocket :: "string \<Rightarrow> relay \<Rightarrow> nat \<times> relay" where
  "new_WebSocket u r =
     (length (sockets r),
      r\<lparr>sockets := sockets r @ [\<lparr>url = u, readyState = CONNECTING, sent = []\<rparr>]\<rparr>)"

text \<open>\<open>socket.send(data)\<close> on an open transport hands the data to the network.\<close>

definition WebSocket_send :: "nat \<Rightarrow> frame \<Rightarrow> relay \<Rightarrow> relay" where
  "WebSocket_send i d r =
     r\<lparr>sockets := (sockets r)[i := (sockets r ! i)\<lparr>sent := sent (sockets r ! i) @ [d]\<rparr>]\<rparr>"

text \<open>\<open>socket.close()\<close>: starts the closing handshake unless already closing or closed.\<close>

definition WebSocket_close :: "nat \<Rightarrow> relay \<Rightarrow> relay" where
  "WebSocket_close i r =
     (if i < length (sockets r)
         \<and> (readyState (sockets r ! i) = CONNECTING \<or> readyState (sockets r ! i) = OPEN)
      then r\<lparr>sockets := (sockets r)[i := (sockets r ! i)\<lparr>readyState := CLOSING\<rparr>]\<rparr>
      else r)"

definition setTimeout :: "nat \<Rightarrow> relay \<Rightarrow> nat \<times> relay" where
  "setTimeout delay r =
     (Suc (timeouts_set r),
      r\<lparr>timers := timers r @ [(Suc (timeouts_set r), now r + delay)],
        timeouts_set := Suc (timeouts_set r)\<rparr>)"

definition clearTimeout :: "nat \<Rightarrow> relay \<Rightarrow> relay" where
  "clearTimeout t r = r\<lparr>timers := filter (\<lambda>p. fst p \<noteq> t) (timers r)\<rparr>"

subsection \<open>The methods\<close>

text \<open>\<open>this.ws?.readyState\<close>: \<open>None\<close> is \<open>undefined\<close>.\<close>

definition ws_readyState :: "relay \<Rightarrow> ready_state option" where
  "ws_readyState r =
     (case ws r of
        None \<Rightarrow> None
      | Some i \<Rightarrow> if i < length (sockets r) then Some (readyState (sockets r ! i)) else None)"

definition isConnected :: "relay \<Rightarrow> bool" where
  "isConnected r = (ws_readyState r = Some OPEN)"

definition connect :: "relay \<Rightarrow> relay" where
  "connect r =
     (if ws_readyState r = Some OPEN then r
      else
        let u = ws_base r @ ''/ws/'' @ meetingId r @ ''/'' @ participantId r;
            r1 = onStatus Status_connecting r;
            (sock, r2) = new_WebSocket u r1
        in r2\<lparr>ws := Some sock\<rparr>)"

definition sendAudioChunk :: "nat list \<Rightarrow> relay \<Rightarrow> relay" where
  "sendAudioChunk chunk r =
     (if ws_readyState r = Some OPEN then WebSocket_send (the (ws r)) (Binary chunk) r else r)"

definition sendText :: "string \<Rightarrow> relay \<Rightarrow> relay" where
  "sendText t r =
     (if ws_readyState r = Some OPEN then WebSocket_send (the (ws r)) (Text t) r else r)"

definition disconnect :: "relay \<Rightarrow> relay" where
  "disconnect r =
     (let r1 = r\<lparr>shouldReconnect := False\<rparr>;
          r2 = (case reconnectTimer r1 of
                  None \<Rightarrow> r1
                | Some t \<Rightarrow> (clearTimeout t r1)\<lparr>reconnectTimer := None\<rparr>);
          r3 = (case ws r2 of None \<Rightarrow> r2 | Some i \<Rightarrow> WebSocket_close i r2)
      in r3\<lparr>ws := None\<rparr>)"

subsection \<open>The four handlers installed by connect\<close>

definition onopen :: "relay \<Rightarrow> relay" where
  "onopen r = onStatus Status_open r"

text \<open>\<open>event.data as string\<close> handed to \<open>JSON.parse\<close>, which converts it to a string.\<close>

definition data_string :: "event_data \<Rightarrow> string" where
  "data_string d = (case d of TextData s \<Rightarrow> s | BlobData _ \<Rightarrow> ''[object Blob]'')"

text \<open>
  \<open>JSON.parse\<close> is the platform's; \<open>parse\<close> stands for it, \<open>None\<close> where it throws.
\<close>

definition JSON_parse :: "(string \<Rightarrow> json option) \<Rightarrow> string \<Rightarrow> js_error + json" where
  "JSON_parse parse s = (case parse s of None \<Rightarrow> Inl SyntaxError | Some j \<Rightarrow> Inr j)"

text \<open>The handler's \<open>try { ... } catch { }\<close>: whatever the body throws is dropped.\<close>

definition onmessage :: "(string \<Rightarrow> json option) \<Rightarrow> event_data \<Rightarrow> relay \<Rightarrow> js_error + relay" where
  "onmessage parse d r =
     (case (case JSON_parse parse (data_string d) of
              Inl e \<Rightarrow> Inl e
            | Inr m \<Rightarrow> Inr (onTranscript m r)) of
        Inl _ \<Rightarrow> Inr r
      | Inr r' \<Rightarrow> Inr r')"

definition onerror :: "relay \<Rightarrow> relay" where
  "onerror r = onStatus Status_error r"

definition onclose :: "relay \<Rightarrow> relay" where
  "onclose r =
     (let r1 = onStatus Status_closed r
      in if shouldReconnect r1
         then (let (t, r2) = setTimeout 3000 r1 in r2\<lparr>reconnectTimer := Some t\<rparr>)
         else r1)"

subsection \<open>Runs of the client\<close>

text \<open>
  What can happen to an instance: its owner calls a public method, or the browser
  delivers an event to the handlers \<open>connect\<close> installed on a transport. The browser
  delivers \<open>open\<close> to a connecting transport, \<open>message\<close> to one that is open or
  closing, \<open>error\<close> to any transport, \<open>close\<close> once to a transport not yet closed
  (which is closed from then on), and runs a timeout's callback once, when it is
  pending and due; an event it cannot deliver leaves the state as it is. Time passes
  by \<open>EvAdvance\<close>.
\<close>

datatype event =
    CallConnect
  | CallSendAudioChunk "nat list"
  | CallSendText string
  | CallDisconnect
  | EvOpen nat
  | EvMessage nat event_data
  | EvError nat
  | EvClose nat
  | EvTimer nat
  | EvAdvance nat

definition set_readyState :: "nat \<Rightarrow> ready_state \<Rightarrow> relay \<Rightarrow> relay" where
  "set_readyState i st r =
     r\<lparr>sockets := (sockets r)[i := (sockets r ! i)\<lparr>readyState := st\<rparr>]\<rparr>"

definition timer_due :: "nat \<Rightarrow> relay \<Rightarrow> bool" where
  "timer_due t r = (case map_of (timers r) t of None \<Rightarrow> False | Some d \<Rightarrow> d \<le> now r)"

fun step :: "(string \<Rightarrow> json option) \<Rightarrow> event \<Rightarrow> relay \<Rightarrow> relay" where
  "step parse CallConnect r = connect r"
| "step parse (CallSendAudioChunk c) r = sendAudioChunk c r"
| "step parse (CallSendText t) r = sendText t r"
| "step parse CallDisconnect r = disconnect r"
| "step parse (EvOpen i) r =
     (if i < length (sockets r) \<and> readyState (sockets r ! i) = CONNECTING
      then onopen (set_readyState i OPEN r) else r)"
| "step parse (EvMessage i d) r =
     (if i < length (sockets r)
         \<and> (readyState (sockets r ! i) = OPEN \<or> readyState (sockets r ! i) = CLOSING)
      then (case onmessage parse d r of Inl _ \<Rightarrow> r | Inr r' \<Rightarrow> r') else r)"
| "step parse (EvError i) r = (if i < length (sockets r) then onerror r else r)"
| "step parse (EvClose i) r =
     (if i < length (sockets r) \<and> readyState (sockets r ! i) \<noteq> CLOSED
      then onclose (set_readyState i CLOSED r) else r)"
| "step parse (EvTimer t) r =
     (if timer_due t r then connect (clearTimeout t r) else r)"
| "step parse (EvAdvance d) r = r\<lparr>now := now r + d\<rparr>"

fun run :: "(string \<Rightarrow> json option) \<Rightarrow> event list \<Rightarrow> relay \<Rightarrow> relay" where
  "run parse [] r = r"
| "run parse (e # es) r = run parse es (step parse e r)"

text \<open>The transports of an instance that are connecting or open.\<close>

definition live_transports :: "relay \<Rightarrow> nat list" where
  "live_transports r =
     filter (\<lambda>i. readyState (sockets r ! i) = CONNECTING \<or> readyState (sockets r ! i) = OPEN)
       [0 ..< length (sockets r)]"

text \<open>
  The number of transports not yet closed, and the state an instance is in as long as
  its owner calls \<open>connect\<close> once: at most one transport is not closed, a reconnect is
  pending only when every transport is closed, and a pending timer is the one whose
  handle the instance keeps.
\<close>

definition n_unclosed :: "relay \<Rightarrow> nat" where
  "n_unclosed r = length (filter (\<lambda>s. readyState s \<noteq> CLOSED) (sockets r))"

definition well_kept :: "relay \<Rightarrow> bool" where
  "well_kept r =
     (n_unclosed r \<le> 1
      \<and> (timers r = [] \<or> n_unclosed r = 0)
      \<and> list_all (\<lambda>p. reconnectTimer r = Some (fst p)) (timers r))"

section \<open>Token store and API gateway client\<close>

subsection \<open>The platform\<close>

record request =
  req_url :: string
  req_method :: "string option"
  req_headers :: "string \<rightharpoonup> string"
  req_body :: "string option"

text \<open>
  A response as \<open>apiFetch\<close> reads it: the status, and what \<open>response.json()\<close>
  resolves to (\<open>None\<close> where it rejects: the body is not JSON).
\<close>

record response =
  status :: nat
  json_body :: "json option"

text \<open>
  The JavaScript environment. Outside a browser \<open>window\<close> is undefined and so is
  \<open>localStorage\<close>: reading that name throws a ReferenceError. In a browser that
  blocks storage for the page (storage disabled, or a page of opaque origin) reading
  \<open>localStorage\<close> throws a SecurityError, and when the storage is full \<open>setItem\<close>
  throws a QuotaExceededError. A cookie is kept under its name and path
  with its value and expiry (milliseconds since the epoch, as \<open>Date.now()\<close> counts
  them in \<open>clock\<close>). \<open>fetched\<close> lists the requests handed to \<open>fetch\<close> so far.
\<close>

record browser =
  window_defined :: bool
  storage_blocked :: bool
  storage_full :: bool
  NEXT_PUBLIC_API_URL :: "string option"
  localStorage :: "string \<rightharpoonup> string"
  cookie_jar :: "string \<times> string \<rightharpoonup> string \<times> nat"
  clock :: nat
  fetched :: "request list"

text \<open>
  The built-in functions the client calls and that are not written out below:
  \<open>JSON.stringify\<close> (of a parsed value: it does not throw), the conversion of a
  number to a string, \<open>encodeURIComponent\<close>, and \<open>fetch\<close> with the backend behind it
  (it answers a request knowing the earlier ones; \<open>Inl\<close> is a rejected promise).
\<close>

record platform =
  JSON_stringify :: "json \<Rightarrow> string"
  Number_toString :: "int \<Rightarrow> string"
  encodeURIComponent :: "string \<Rightarrow> string"
  fetch :: "request list \<Rightarrow> request \<Rightarrow> js_error + response"

text \<open>
  Values of the program are \<open>json option\<close>, \<open>None\<close> for \<open>undefined\<close>. Reading a
  member \<open>v.k\<close>: of \<open>undefined\<close> or \<open>null\<close> it throws a TypeError, of an object it
  gives the member, of any other value (for the names read here) \<open>undefined\<close>.
\<close>

definition get_member :: "json option \<Rightarrow> string \<Rightarrow> js_error + json option" where
  "get_member v k =
     (case v of
        None \<Rightarrow> Inl TypeError
      | Some JNull \<Rightarrow> Inl TypeError
      | Some (JObj members) \<Rightarrow> Inr (map_of members k)
      | Some _ \<Rightarrow> Inr None)"

text \<open>
  The conversion of a value to a string (\<open>ToString\<close>), as \<open>new Error(v)\<close>,
  \<open>setItem\<close> and \<open>encodeURIComponent\<close> apply it to their argument. An array is
  joined with commas, \<open>null\<close> elements giving the empty string. An object is converted
  by its \<open>toString\<close> method: the inherited one gives \<open>[object Object]\<close>; a member
  named \<open>toString\<close> of a parsed object hides it and is not a function, and then the
  conversion throws a TypeError (\<open>valueOf\<close>, own or inherited, yields no primitive
  either).
\<close>

fun js_ToString :: "(int \<Rightarrow> string) \<Rightarrow> json \<Rightarrow> js_error + string"
  and js_join :: "(int \<Rightarrow> string) \<Rightarrow> json list \<Rightarrow> js_error + string" where
  "js_ToString num JNull = Inr ''null''"
| "js_ToString num (JBool t) = Inr (if t then ''true'' else ''false'')"
| "js_ToString num (JNum n) = Inr (num n)"
| "js_ToString num (JStr s) = Inr s"
| "js_ToString num (JArr xs) = js_join num xs"
| "js_ToString num (JObj members) =
     (if map_of members ''toString'' = None then Inr ''[object Object]'' else Inl TypeError)"
| "js_join num [] = Inr []"
| "js_join num (x # xs) =
     (case (if x = JNull then Inr [] else js_ToString num x) of
        Inl e \<Rightarrow> Inl e
      | Inr s \<Rightarrow>
          if xs = [] then Inr s
          else (case js_join num xs of Inl e \<Rightarrow> Inl e | Inr t \<Rightarrow> Inr (s @ '','' @ t)))"

definition to_string :: "platform \<Rightarrow> json option \<Rightarrow> js_error + string" where
  "to_string pf v =
     (case v of
        None \<Rightarrow> Inr ''undefined''
      | Some j \<Rightarrow> js_ToString (Number_toString pf) j)"

text \<open>
  The three methods of \<open>localStorage\<close> the code calls. Reading the name
  \<open>localStorage\<close> comes first and can throw; \<open>setItem\<close> then converts its value to
  a string.
\<close>

definition localStorage_access :: "browser \<Rightarrow> js_error option" where
  "localStorage_access b =
     (if \<not> window_defined b then Some ReferenceError
      else if storage_blocked b then Some SecurityError
      else None)"

definition localStorage_getItem :: "string \<Rightarrow> browser \<Rightarrow> js_error + string option" where
  "localStorage_getItem k b =
     (case localStorage_access b of Some e \<Rightarrow> Inl e | None \<Rightarrow> Inr (localStorage b k))"

definition localStorage_setItem :: "platform \<Rightarrow> string \<Rightarrow> json option \<Rightarrow> browser \<Rightarrow> js_error + browser" where
  "localStorage_setItem pf k v b =
     (case localStorage_access b of
        Some e \<Rightarrow> Inl e
      | None \<Rightarrow>
          (case to_string pf v of
             Inl e \<Rightarrow> Inl e
           | Inr s \<Rightarrow>
               if storage_full b then Inl QuotaExceededError
               else Inr (b\<lparr>localStorage := (localStorage b)(k \<mapsto> s)\<rparr>)))"

definition localStorage_removeItem :: "string \<Rightarrow> browser \<Rightarrow> js_error + browser" where
  "localStorage_removeItem k b =
     (case localStorage_access b of
        Some e \<Rightarrow> Inl e
      | None \<Rightarrow> Inr (b\<lparr>localStorage := (localStorage b)(k := None)\<rparr>))"

text \<open>
  \<open>document.cookie = "name=value; expires=...; path=..."\<close>: the browser stores the
  cookie, or removes the one of that name and path when the expiry is not in the future.
  The code assigns to \<open>document.cookie\<close> only after an access to \<open>localStorage\<close> has
  succeeded.
\<close>

definition document_cookie_assign :: "string \<Rightarrow> string \<Rightarrow> nat \<Rightarrow> string \<Rightarrow> browser \<Rightarrow> browser" where
  "document_cookie_assign name v expires path b =
     (if expires \<le> clock b
      then b\<lparr>cookie_jar := (cookie_jar b)((name, path) := None)\<rparr>
      else b\<lparr>cookie_jar := (cookie_jar b)((name, path) \<mapsto> (v, expires))\<rparr>)"

text \<open>
  What a request carries as the cookie \<open>name\<close> (of path \<open>/\<close>): its value, unless it
  has expired.
\<close>

definition cookie_value :: "string \<Rightarrow> browser \<Rightarrow> string option" where
  "cookie_value name b =
     (case cookie_jar b (name, ''/'') of
        None \<Rightarrow> None
      | Some (v, expires) \<Rightarrow> if clock b < expires then Some v else None)"

subsection \<open>Token helpers\<close>

definition TOKEN_KEY :: string where
  "TOKEN_KEY = ''relay_access_token''"

definition getToken :: "browser \<Rightarrow> js_error + string option" where
  "getToken b = (if \<not> window_defined b then Inr None else localStorage_getItem TOKEN_KEY b)"

definition setToken :: "platform \<Rightarrow> json option \<Rightarrow> browser \<Rightarrow> js_error + browser" where
  "setToken pf token b = localStorage_setItem pf TOKEN_KEY token b"

definition clearToken :: "browser \<Rightarrow> js_error + browser" where
  "clearToken b = localStorage_removeItem TOKEN_KEY b"

subsection \<open>Core fetch wrapper\<close>

text \<open>
  \<open>RequestOptions\<close>: \<open>None\<close> is a member left out. \<open>opt_method\<close> and \<open>opt_headers\<close>
  are the members of \<open>init\<close> the wrapper passes on.
\<close>

record request_options =
  opt_method :: "string option"
  opt_headers :: "(string \<rightharpoonup> string) option"
  opt_body :: "json option"
  opt_auth :: "bool option"

definition no_options :: request_options where
  "no_options = \<lparr>opt_method = None, opt_headers = None, opt_body = None, opt_auth = None\<rparr>"

text \<open>A number in a template literal: its decimal digits.\<close>

fun string_of_nat :: "nat \<Rightarrow> string" where
  "string_of_nat n =
     (if n < 10 then [''0123456789'' ! n]
      else string_of_nat (n div 10) @ [''0123456789'' ! (n mod 10)])"

declare string_of_nat.simps [simp del]

text \<open>\<open>response.ok\<close>\<close>

definition ok :: "response \<Rightarrow> bool" where
  "ok response = (200 \<le> status response \<and> status response \<le> 299)"

text \<open>
  What \<open>throw new Error(v)\<close> throws: the constructor converts \<open>v\<close> to a string, and
  when that conversion throws, its TypeError is what leaves instead of the Error.
\<close>

definition throw_new_Error :: "platform \<Rightarrow> json option \<Rightarrow> js_error" where
  "throw_new_Error pf v = (case to_string pf v of Inl e \<Rightarrow> e | Inr s \<Rightarrow> Error s)"

text \<open>
  The \<open>if (!response.ok)\<close> block. \<open>error_detail\<close> is the value of \<open>detail\<close>
  after the inner \<open>try\<close>, which covers \<open>response.json()\<close> and the read of
  \<open>err.detail\<close>: when either throws, \<open>detail\<close> keeps its first value.
  \<open>a ?? b\<close> is \<open>b\<close> when \<open>a\<close> is \<open>undefined\<close> or \<open>null\<close>.
  \<open>throw new Error(detail)\<close> comes after the \<open>try\<close>.
\<close>

definition error_detail :: "platform \<Rightarrow> response \<Rightarrow> json option" where
  "error_detail pf response =
     (let detail = Some (JStr (''HTTP '' @ string_of_nat (status response)))
      in case json_body response of
           None \<Rightarrow> detail
         | Some err \<Rightarrow>
             (case get_member (Some err) ''detail'' of
                Inl _ \<Rightarrow> detail
              | Inr None \<Rightarrow> Some (JStr (JSON_stringify pf err))
              | Inr (Some JNull) \<Rightarrow> Some (JStr (JSON_stringify pf err))
              | Inr (Some d) \<Rightarrow> Some d))"

definition not_ok_error :: "platform \<Rightarrow> response \<Rightarrow> js_error" where
  "not_ok_error pf response = throw_new_Error pf (error_detail pf response)"

text \<open>The headers of the request: the defaults, the caller's, then the bearer token.\<close>

definition apiFetch_headers :: "browser \<Rightarrow> request_options \<Rightarrow> js_error + (string \<rightharpoonup> string)" where
  "apiFetch_headers b opts =
     (let headers = [''Content-Type'' \<mapsto> ''application/json'']
                      ++ (case opt_headers opts of None \<Rightarrow> Map.empty | Some h \<Rightarrow> h)
      in if (case opt_auth opts of None \<Rightarrow> True | Some a \<Rightarrow> a)
         then (case getToken b of
                 Inl e \<Rightarrow> Inl e
               | Inr None \<Rightarrow> Inr headers
               | Inr (Some token) \<Rightarrow>
                   if token = [] then Inr headers
                   else Inr (headers(''Authorization'' \<mapsto> ''Bearer '' @ token)))
         else Inr headers)"

text \<open>The request \<open>apiFetch\<close> hands to \<open>fetch\<close>.\<close>

definition apiFetch_request :: "platform \<Rightarrow> browser \<Rightarrow> string \<Rightarrow> request_options \<Rightarrow> js_error + request" where
  "apiFetch_request pf b path opts =
     (case apiFetch_headers b opts of
        Inl e \<Rightarrow> Inl e
      | Inr headers \<Rightarrow>
          Inr \<lparr> req_url = BASE_URL (NEXT_PUBLIC_API_URL b) @ path,
                req_method = opt_method opts,
                req_headers = headers,
                req_body = map_option (JSON_stringify pf) (opt_body opts) \<rparr>)"

text \<open>
  \<open>apiFetch\<close>: the promise's outcome (\<open>Inl\<close> rejected, \<open>Inr None\<close> resolved with
  \<open>undefined\<close>) and the environment afterwards.
\<close>

definition apiFetch :: "platform \<Rightarrow> string \<Rightarrow> request_options \<Rightarrow> browser \<Rightarrow> (js_error + json option) \<times> browser" where
  "apiFetch pf path opts b =
     (case apiFetch_request pf b path opts of
        Inl e \<Rightarrow> (Inl e, b)
      | Inr req \<Rightarrow>
          (let b' = b\<lparr>fetched := fetched b @ [req]\<rparr>
           in case fetch pf (fetched b) req of
                Inl e \<Rightarrow> (Inl e, b')
              | Inr response \<Rightarrow>
                  if \<not> ok response then (Inl (not_ok_error pf response), b')
                  else if status response = 204 then (Inr None, b')
                  else (case json_body response of
                          None \<Rightarrow> (Inl SyntaxError, b')
                        | Some j \<Rightarrow> (Inr (Some j), b'))))"

definition getMe :: "platform \<Rightarrow> browser \<Rightarrow> (js_error + json option) \<times> browser" where
  "getMe pf b = apiFetch pf ''/auth/me'' no_options b"

definition loginCompany :: "platform \<Rightarrow> string \<Rightarrow> string \<Rightarrow> browser \<Rightarrow> (js_error + json option) \<times> browser" where
  "loginCompany pf email password b =
     apiFetch pf ''/auth/login''
       \<lparr> opt_method = Some ''POST'', opt_headers = None,
         opt_body = Some (JObj [(''email'', JStr email), (''password'', JStr password)]),
         opt_auth = Some False \<rparr> b"

section \<open>Auth context (AuthProvider)\<close>

subsection \<open>Cookie helpers\<close>

text \<open>
  \<open>setCookie(name, value)\<close> with \<open>days\<close> at its default of a half:
  \<open>0.5 * 864e5\<close> is 43200000 milliseconds. The date is written by
  \<open>toUTCString()\<close>, which has whole seconds only. \<open>encodeURIComponent\<close> converts
  its argument to a string first.
\<close>

definition setCookie :: "platform \<Rightarrow> string \<Rightarrow> json option \<Rightarrow> browser \<Rightarrow> js_error + browser" where
  "setCookie pf name v b =
     (case to_string pf v of
        Inl e \<Rightarrow> Inl e
      | Inr s \<Rightarrow>
          Inr (document_cookie_assign name (encodeURIComponent pf s)
                 ((clock b + 43200000) div 1000 * 1000) ''/'' b))"

text \<open>\<open>expires=Thu, 01 Jan 1970 00:00:00 GMT\<close> is time 0.\<close>

definition deleteCookie :: "string \<Rightarrow> browser \<Rightarrow> browser" where
  "deleteCookie name b = document_cookie_assign name [] 0 ''/'' b"

subsection \<open>Provider\<close>

text \<open>
  The provider's two state variables and the environment it runs in. \<open>user\<close> is
  \<open>Some JNull\<close> for \<open>null\<close>.
\<close>

record auth_state =
  user :: "json option"
  isLoading :: bool
  env :: browser

definition AuthProvider :: "browser \<Rightarrow> auth_state" where
  "AuthProvider b = \<lparr>user = Some JNull, isLoading = True, env = b\<rparr>"

text \<open>\<open>!!v\<close>\<close>

definition truthy :: "json option \<Rightarrow> bool" where
  "truthy v =
     (case v of
        None \<Rightarrow> False
      | Some JNull \<Rightarrow> False
      | Some (JBool t) \<Rightarrow> t
      | Some (JNum n) \<Rightarrow> n \<noteq> 0
      | Some (JStr s) \<Rightarrow> s \<noteq> []
      | Some _ \<Rightarrow> True)"

definition isAuthenticated :: "auth_state \<Rightarrow> bool" where
  "isAuthenticated st = truthy (user st)"

text \<open>
  The effect run on mount. \<open>getMe().then(setUser).catch(() => clearToken())
  .finally(() => setIsLoading(false))\<close>: the outcome of \<open>getMe\<close> decides between
  \<open>setUser\<close> and \<open>clearToken\<close>, and \<open>finally\<close> runs after either (also when the handler
  of \<open>catch\<close> throws). \<open>Inl\<close> is an exception thrown by the effect itself.
\<close>

definition restore :: "platform \<Rightarrow> auth_state \<Rightarrow> js_error + auth_state" where
  "restore pf st =
     (case getToken (env st) of
        Inl e \<Rightarrow> Inl e
      | Inr token \<Rightarrow>
          if token = None \<or> token = Some [] then Inr (st\<lparr>isLoading := False\<rparr>)
          else
            (case getMe pf (env st) of
               (Inr me, b) \<Rightarrow> Inr (st\<lparr>user := me, isLoading := False, env := b\<rparr>)
             | (Inl _, b) \<Rightarrow>
                 (case clearToken b of
                    Inl _ \<Rightarrow> Inr (st\<lparr>isLoading := False, env := b\<rparr>)
                  | Inr b' \<Rightarrow> Inr (st\<lparr>isLoading := False, env := b'\<rparr>))))"

text \<open>
  \<open>login\<close>: the promise's outcome and the state afterwards; a step that throws
  rejects the promise and leaves what the earlier steps did.
\<close>

definition login :: "platform \<Rightarrow> string \<Rightarrow> string \<Rightarrow> auth_state \<Rightarrow> (js_error + unit) \<times> auth_state" where
  "login pf email password st =
     (case loginCompany pf email password (env st) of
        (Inl e, b) \<Rightarrow> (Inl e, st\<lparr>env := b\<rparr>)
      | (Inr tokenData, b) \<Rightarrow>
          (case get_member tokenData ''access_token'' of
             Inl e \<Rightarrow> (Inl e, st\<lparr>env := b\<rparr>)
           | Inr access_token \<Rightarrow>
               (case setToken pf access_token b of
                  Inl e \<Rightarrow> (Inl e, st\<lparr>env := b\<rparr>)
                | Inr b1 \<Rightarrow>
                    (case setCookie pf ''relay_token'' access_token b1 of
                       Inl e \<Rightarrow> (Inl e, st\<lparr>env := b1\<rparr>)
                     | Inr b2 \<Rightarrow>
                         (case getMe pf b2 of
                            (Inl e, b3) \<Rightarrow> (Inl e, st\<lparr>env := b3\<rparr>)
                          | (Inr me, b3) \<Rightarrow> (Inr (), st\<lparr>user := me, env := b3\<rparr>))))))"

definition logout :: "auth_state \<Rightarrow> js_error + auth_state" where
  "logout st =
     (case clearToken (env st) of
        Inl e \<Rightarrow> Inl e
      | Inr b \<Rightarrow> Inr (st\<lparr>user := Some JNull, env := deleteCookie ''relay_token'' b\<rparr>))"

section \<open>Session controller (RoomPageContent)\<close>

subsection \<open>The types of the backend's answers\<close>

record AuthUser =
  email :: string
  role :: string
  entity_id :: string

record Company =
  Company_id :: string
  Company_name :: string
  Company_email :: string
  Company_is_active :: bool

record Meeting =
  Meeting_id :: string
  Meeting_code :: string
  Meeting_title :: string

record Participant =
  Participant_id :: string
  Participant_meeting_id :: string
  Participant_name :: string

record ParticipantCreate =
  meeting_id :: string
  name :: string
  preferred_language :: string
  is_registered :: bool

text \<open>
  The endpoint functions the page calls. Each is one call of \<open>apiFetch\<close> whose
  answer the code takes at the declared TypeScript type, so each is given here at that
  type: what its promise settles to (\<open>Inl\<close> rejected). \<open>api_calls\<close> of the page's
  state lists the calls made, in order.
\<close>

record backend =
  getMeetingByCode :: "string \<Rightarrow> js_error + Meeting"
  listParticipants :: "string \<Rightarrow> js_error + Participant list"
  getMyCompany :: "js_error + Company"
  joinMeeting :: "ParticipantCreate \<Rightarrow> js_error + Participant"

datatype api_call =
    Call_getMeetingByCode string
  | Call_listParticipants string
  | Call_getMyCompany
  | Call_joinMeeting ParticipantCreate

record room =
  meeting :: "Meeting option"
  company :: "Company option"
  room_participantId :: "string option"
  isHost :: bool
  displayName :: string
  participants :: "Participant list"
  error :: "string option"
  api_calls :: "api_call list"

definition RoomPageContent :: room where
  "RoomPageContent =
     \<lparr> meeting = None, company = None, room_participantId = None, isHost = False,
       displayName = ''You'', participants = [], error = None, api_calls = [] \<rparr>"

text \<open>
  How \<open>init\<close> leaves its first part (up to the choice of the participant id): the
  promise rejects, the function returns early, or it goes on to the audio channel and
  the socket with \<open>participantIdToUse\<close>.
\<close>

datatype init_result = Rejected js_error | Returned | Continue string

definition called :: "api_call \<Rightarrow> room \<Rightarrow> room" where
  "called c rm = rm\<lparr>api_calls := api_calls rm @ [c]\<rparr>"

text \<open>The \<open>try\<close> around \<open>listParticipants\<close>: a failure is logged and dropped.\<close>

definition init_roster :: "backend \<Rightarrow> Meeting \<Rightarrow> room \<Rightarrow> room" where
  "init_roster be m rm =
     (case listParticipants be (Meeting_id m) of
        Inl _ \<Rightarrow> called (Call_listParticipants (Meeting_id m)) rm
      | Inr participantsList \<Rightarrow>
          (called (Call_listParticipants (Meeting_id m)) rm)\<lparr>participants := participantsList\<rparr>)"

text \<open>The branch \<open>if (pid)\<close>: a participant joining by link.\<close>

definition init_link :: "browser \<Rightarrow> string \<Rightarrow> room \<Rightarrow> init_result \<times> room" where
  "init_link b pid rm =
     (case localStorage_getItem ''relay_participant_name'' b of
        Inl e \<Rightarrow> (Rejected e, rm\<lparr>room_participantId := Some pid, isHost := False\<rparr>)
      | Inr storedName \<Rightarrow>
          (Continue pid,
           rm\<lparr>room_participantId := Some pid, isHost := False,
              displayName := (case storedName of
                                None \<Rightarrow> ''Participant''
                              | Some n \<Rightarrow> if n = [] then ''Participant'' else n)\<rparr>))"

text \<open>The branch \<open>else if (user)\<close>: the host, for whom a participant is created.\<close>

definition init_host :: "backend \<Rightarrow> AuthUser \<Rightarrow> Meeting \<Rightarrow> room \<Rightarrow> init_result \<times> room" where
  "init_host be u m rm =
     (let (hostName, rm1) =
            (case getMyCompany be of
               Inr c \<Rightarrow> (Company_name c, (called Call_getMyCompany rm)\<lparr>company := Some c\<rparr>)
             | Inl _ \<Rightarrow>
                 (email u,
                  (called Call_getMyCompany rm)
                    \<lparr>company := Some \<lparr>Company_id = [], Company_name = email u,
                                      Company_email = email u, Company_is_active = True\<rparr>\<rparr>));
          data = \<lparr>meeting_id = Meeting_id m, name = hostName, preferred_language = ''en'',
                   is_registered = True\<rparr>;
          rm2 = called (Call_joinMeeting data) rm1
      in case joinMeeting be data of
           Inl e \<Rightarrow> (Rejected e, rm2)
         | Inr participant \<Rightarrow>
             (Continue (Participant_id participant),
              rm2\<lparr>room_participantId := Some (Participant_id participant), isHost := True,
                  displayName := hostName\<rparr>))"

text \<open>
  \<open>init\<close>, from \<open>await params\<close> to the end of the \<open>if (pid) ... else if (user) ...
  else\<close> statement. \<open>code\<close> is \<open>p.code\<close>, \<open>pid\<close> is
  \<open>searchParams.get("participantId")\<close>, \<open>usr\<close> is the page's \<open>user\<close>. A string is
  truthy when it is neither \<open>null\<close> nor empty.
\<close>

definition init :: "backend \<Rightarrow> browser \<Rightarrow> string \<Rightarrow> string option \<Rightarrow> AuthUser option \<Rightarrow> room \<Rightarrow> init_result \<times> room" where
  "init be b code pid usr rm =
     (case getMeetingByCode be code of
        Inl e \<Rightarrow> (Rejected e, called (Call_getMeetingByCode code) rm)
      | Inr m \<Rightarrow>
          (let rm1 = init_roster be m ((called (Call_getMeetingByCode code) rm)\<lparr>meeting := Some m\<rparr>)
           in if pid \<noteq> None \<and> pid \<noteq> Some [] then init_link b (the pid) rm1
              else (case usr of
                      Some u \<Rightarrow> init_host be u m rm1
                    | None \<Rightarrow>
                        (Returned, rm1\<lparr>error := Some ''Please log in to start a meeting''\<rparr>))))"

text \<open>The calls of \<open>joinMeeting\<close> (participant-create) among the calls made.\<close>

definition joinMeeting_calls :: "room \<Rightarrow> ParticipantCreate list" where
  "joinMeeting_calls rm =
     concat (map (\<lambda>c. case c of Call_joinMeeting d \<Rightarrow> [d] | _ \<Rightarrow> []) (api_calls rm))"

section \<open>Route guard (middleware)\<close>

definition PROTECTED_PATHS :: "string list" where
  "PROTECTED_PATHS = [''/dashboard'']"

definition AUTH_PATHS :: "string list" where
  "AUTH_PATHS = [''/login'', ''/signup'']"

definition startsWith :: "string \<Rightarrow> string \<Rightarrow> bool" where
  "startsWith s p = (take (length p) s = p)"

datatype middleware_result = Redirect_to_login string | Redirect_to_dashboard | Next

text \<open>
  \<open>token\<close> is \<open>request.cookies.get("relay_token")?.value\<close>; it counts as present
  when it is neither \<open>undefined\<close> nor empty.
\<close>

definition middleware :: "string \<Rightarrow> string option \<Rightarrow> middleware_result" where
  "middleware pathname token =
     (let isProtected = list_ex (\<lambda>p. startsWith pathname p) PROTECTED_PATHS;
          isAuthPage = list_ex (\<lambda>p. startsWith pathname p) AUTH_PATHS;
          present = (token \<noteq> None \<and> token \<noteq> Some [])
      in if isProtected \<and> \<not> present then Redirect_to_login pathname
         else if isAuthPage \<and> present then Redirect_to_dashboard
         else Next)"

section \<open>Properties of the transcript socket client\<close>

lemmas relay_defs =
  connect_def sendAudioChunk_def sendText_def disconnect_def onopen_def onmessage_def
  onerror_def onclose_def onStatus_def onTranscript_def new_WebSocket_def
  WebSocket_send_def WebSocket_close_def setTimeout_def clearTimeout_def
  set_readyState_def timer_due_def JSON_parse_def ws_readyState_def

lemmas relay_start_defs = RelayWebSocket_def WS_BASE_URL_def BASE_URL_def

subsection \<open>Closing and reconnecting\<close>

text \<open>
  A close event on an instance whose reconnection is enabled reports \<open>closed\<close> and
  calls \<open>setTimeout\<close> once, with a delay of 3000 ms: one timer more is pending, due
  3000 ms from now, and its handle is the one the instance keeps.
\<close>

lemma onclose_schedules_one_reconnect:
  assumes "shouldReconnect r"
  shows "timers (onclose r) = timers r @ [(Suc (timeouts_set r), now r + 3000)]"
    and "timeouts_set (onclose r) = Suc (timeouts_set r)"
    and "reconnectTimer (onclose r) = Some (Suc (timeouts_set r))"
    and "statuses (onclose r) = statuses r @ [Status_closed]"
  using assms by (simp_all add: onclose_def onStatus_def setTimeout_def)

text \<open>The callback of such a timer cannot run before its 3000 ms have passed.\<close>

lemma reconnect_not_before_delay:
  assumes "map_of (timers r) t = Some (now r + 3000)" and "d < 3000"
  shows "step parse (EvTimer t) (step parse (EvAdvance d) r) = step parse (EvAdvance d) r"
  using assms by (simp add: timer_due_def)

text \<open>\<open>disconnect\<close> cancels the timer whose handle the instance keeps.\<close>

lemma disconnect_cancels_kept_timer:
  assumes "reconnectTimer r = Some t"
  shows "t \<notin> fst ` set (timers (disconnect r))"
  using assms by (auto simp: disconnect_def clearTimeout_def WebSocket_close_def Let_def
      split: option.splits)

text \<open>
  Claim C1. Every close event with reconnection enabled schedules exactly one reconnect
  3000 ms later (the lemmas above), and \<open>disconnect\<close> before the delay has passed is
  meant to cancel it so that no connection is attempted any more. The handler of
  \<open>close\<close> overwrites the handle of a timer that is still pending, and \<open>connect\<close>
  neither cancels a pending timer nor looks at \<open>shouldReconnect\<close>. So in the run below
  (the first transport closes, the owner calls \<open>connect\<close> during the delay, the second
  transport closes too, the owner calls \<open>disconnect\<close>) the timer of the first close
  event survives \<open>disconnect\<close>; when it fires, a third transport is opened on an
  instance that has been disconnected.
\<close>

theorem reconnect_fires_after_disconnect:
  "shouldReconnect
     (run parse [CallConnect, EvClose 0, CallConnect, EvClose 1, CallDisconnect]
        (RelayWebSocket None ''m'' ''p'')) = False
   \<and> timers
     (run parse [CallConnect, EvClose 0, CallConnect, EvClose 1, CallDisconnect]
        (RelayWebSocket None ''m'' ''p'')) = [(1, 3000)]
   \<and> map readyState (sockets
     (run parse [CallConnect, EvClose 0, CallConnect, EvClose 1, CallDisconnect]
        (RelayWebSocket None ''m'' ''p''))) = [CLOSED, CLOSED]
   \<and> map readyState (sockets
     (run parse [CallConnect, EvClose 0, CallConnect, EvClose 1, CallDisconnect,
                 EvAdvance 3000, EvTimer 1]
        (RelayWebSocket None ''m'' ''p''))) = [CLOSED, CLOSED, CONNECTING]"
  by (simp add: relay_defs relay_start_defs Let_def)

subsection \<open>One transport at a time\<close>

text \<open>\<open>connect\<close> on an instance whose transport is open changes nothing.\<close>

lemma connect_when_open_is_noop:
  assumes "isConnected r"
  shows "connect r = r"
  using assms by (simp add: connect_def isConnected_def)

text \<open>
  Claim C2. An instance is meant to have at most one live transport, and \<open>connect\<close>
  returns at once when the transport is open. Its guard tests for \<open>OPEN\<close> only: called
  while the transport is still connecting, it opens a second one and leaves the first
  alive with its handlers installed. After two calls of \<open>connect\<close> both transports are
  connecting, and both go on to open.
\<close>

theorem connect_while_connecting_opens_second_transport:
  "live_transports (run parse [CallConnect, CallConnect] (RelayWebSocket None ''m'' ''p''))
     = [0, 1]
   \<and> map readyState (sockets
        (run parse [CallConnect, CallConnect, EvOpen 0, EvOpen 1]
           (RelayWebSocket None ''m'' ''p''))) = [OPEN, OPEN]
   \<and> ws (run parse [CallConnect, CallConnect, EvOpen 0, EvOpen 1]
           (RelayWebSocket None ''m'' ''p'')) = Some 1"
  by (simp add: relay_defs relay_start_defs live_transports_def Let_def upt_rec)

subsection \<open>Sending\<close>

text \<open>
  Claim C4. Whenever the transport is not open (there is none, or it is connecting,
  closing or closed), \<open>sendAudioChunk\<close> and \<open>sendText\<close> leave the whole state as it
  is: \<open>send\<close> is called on no transport, and nothing is kept for later.
\<close>

theorem send_when_not_open_is_noop:
  assumes "ws_readyState r \<noteq> Some OPEN"
  shows "sendAudioChunk chunk r = r \<and> sendText t r = r"
  using assms by (simp add: sendAudioChunk_def sendText_def)

theorem send_when_not_open_is_noop_witness:
  "ws_readyState (connect (RelayWebSocket None ''m'' ''p'')) \<noteq> Some OPEN
   \<and> sendAudioChunk [1, 2, 3] (connect (RelayWebSocket None ''m'' ''p''))
       = connect (RelayWebSocket None ''m'' ''p'')
   \<and> sendText ''hello'' (connect (RelayWebSocket None ''m'' ''p''))
       = connect (RelayWebSocket None ''m'' ''p'')"
proof -
  have h: "ws_readyState (connect (RelayWebSocket None ''m'' ''p'')) \<noteq> Some OPEN"
    by (simp add: relay_defs relay_start_defs Let_def)
  from h send_when_not_open_is_noop [OF h, of "[1, 2, 3]" "''hello''"]
  show ?thesis by simp
qed

subsection \<open>Inbound frames\<close>

text \<open>
  Claim C5. A frame whose payload \<open>JSON.parse\<close> rejects: the handler returns normally
  and leaves the whole state as it is, so the transcript callback is not called, no
  status is reported and no exception leaves the client; the browser's delivery of the
  event changes nothing either.
\<close>

theorem malformed_frame_is_discarded:
  assumes "parse (data_string d) = None"
  shows "onmessage parse d r = Inr r \<and> step parse (EvMessage i d) r = r"
  using assms by (simp add: onmessage_def JSON_parse_def)

theorem malformed_frame_is_discarded_witness:
  "(\<lambda>s. if s = ''{}'' then Some (JObj []) else None)
       (data_string (TextData ''not json'')) = None
   \<and> onmessage (\<lambda>s. if s = ''{}'' then Some (JObj []) else None) (TextData ''not json'')
        (run (\<lambda>s. if s = ''{}'' then Some (JObj []) else None) [CallConnect, EvOpen 0]
           (RelayWebSocket None ''m'' ''p''))
       = Inr (run (\<lambda>s. if s = ''{}'' then Some (JObj []) else None) [CallConnect, EvOpen 0]
           (RelayWebSocket None ''m'' ''p''))
   \<and> step (\<lambda>s. if s = ''{}'' then Some (JObj []) else None) (EvMessage 0 (TextData ''not json''))
        (run (\<lambda>s. if s = ''{}'' then Some (JObj []) else None) [CallConnect, EvOpen 0]
           (RelayWebSocket None ''m'' ''p''))
       = run (\<lambda>s. if s = ''{}'' then Some (JObj []) else None) [CallConnect, EvOpen 0]
           (RelayWebSocket None ''m'' ''p'')"
proof -
  let ?parse = "\<lambda>s. if s = ''{}'' then Some (JObj []) else None"
  have h: "?parse (data_string (TextData ''not json'')) = None"
    by (simp add: data_string_def)
  from h malformed_frame_is_discarded [of ?parse "TextData ''not json''", OF h]
  show ?thesis by blast
qed

subsection \<open>After disconnect\<close>

lemma step_keeps_reconnect_off:
  assumes "\<not> shouldReconnect r"
  shows "\<not> shouldReconnect (step parse e r)"
    and "timeouts_set (step parse e r) = timeouts_set r"
    and "set (timers (step parse e r)) \<subseteq> set (timers r)"
  using assms
  by (cases e; auto simp: relay_defs Let_def split: option.splits sum.splits)+

lemma run_keeps_reconnect_off:
  assumes "\<not> shouldReconnect r"
  shows "\<not> shouldReconnect (run parse es r)
         \<and> timeouts_set (run parse es r) = timeouts_set r
         \<and> set (timers (run parse es r)) \<subseteq> set (timers r)"
  using assms
proof (induction es arbitrary: r)
  case Nil
  then show ?case by simp
next
  case (Cons e es)
  note off = step_keeps_reconnect_off [OF Cons.prems, of parse e]
  from Cons.IH [OF off(1)] off(2) off(3) show ?case by auto
qed

lemma disconnect_turns_reconnect_off:
  "\<not> shouldReconnect (disconnect r)"
  "timeouts_set (disconnect r) = timeouts_set r"
  "set (timers (disconnect r)) \<subseteq> set (timers r)"
  by (auto simp: disconnect_def clearTimeout_def WebSocket_close_def Let_def
      split: option.splits)

text \<open>
  Claim C9. Once \<open>disconnect\<close> has been called, whatever happens next (calls of
  \<open>connect\<close> and of the other methods, events of any transport, timers firing):
  \<open>shouldReconnect\<close> stays false, \<open>setTimeout\<close> is never called again, and no timer
  is pending that was not pending before. In particular a transport opened by a
  later \<open>connect\<close> schedules no reconnect when it closes.
\<close>

theorem disconnect_disables_reconnect_for_good:
  "shouldReconnect (run parse es (disconnect r)) = False
   \<and> timeouts_set (run parse es (disconnect r)) = timeouts_set r
   \<and> set (timers (run parse es (disconnect r))) \<subseteq> set (timers r)"
  using run_keeps_reconnect_off [OF disconnect_turns_reconnect_off(1), of parse es r]
    disconnect_turns_reconnect_off(2) [of r] disconnect_turns_reconnect_off(3) [of r]
  by auto

theorem disconnect_disables_reconnect_for_good_witness:
  "shouldReconnect
     (run (\<lambda>s. None) [CallConnect, EvOpen 1, EvClose 1]
        (disconnect (run (\<lambda>s. None) [CallConnect, EvOpen 0] (RelayWebSocket None ''m'' ''p''))))
     = False
   \<and> timers
     (run (\<lambda>s. None) [CallConnect, EvOpen 1, EvClose 1]
        (disconnect (run (\<lambda>s. None) [CallConnect, EvOpen 0] (RelayWebSocket None ''m'' ''p''))))
     = []
   \<and> map readyState (sockets
     (run (\<lambda>s. None) [CallConnect, EvOpen 1, EvClose 1]
        (disconnect (run (\<lambda>s. None) [CallConnect, EvOpen 0] (RelayWebSocket None ''m'' ''p'')))))
     = [CLOSING, CLOSED]"
proof -
  let ?r = "run (\<lambda>s. None) [CallConnect, EvOpen 0] (RelayWebSocket None ''m'' ''p'')"
  have t: "timers ?r = []"
    by (simp add: relay_defs relay_start_defs Let_def)
  have s: "map readyState (sockets (run (\<lambda>s. None) [CallConnect, EvOpen 1, EvClose 1]
             (disconnect ?r))) = [CLOSING, CLOSED]"
    by (simp add: relay_defs relay_start_defs Let_def)
  from disconnect_disables_reconnect_for_good
         [of "\<lambda>s. None" "[CallConnect, EvOpen 1, EvClose 1]" ?r] t s
  show ?thesis by simp
qed

subsection \<open>An owner who connects once\<close>

text \<open>
  The room page calls \<open>connect\<close> once, right after constructing the instance. In
  such runs \<open>well_kept\<close> holds throughout, and with it what the two claims above ask
  for: never two live transports, and after \<open>disconnect\<close> no pending timer and no
  further transport.
\<close>

lemma filter_update_length:
  "i < length xs \<Longrightarrow>
     length (filter P (xs[i := x])) + (if P (xs ! i) then 1 else 0)
       = length (filter P xs) + (if P x then 1 else 0)"
proof (induction xs arbitrary: i)
  case Nil
  then show ?case by simp
next
  case (Cons a xs)
  then show ?case by (cases i) auto
qed

lemma n_unclosed_set_readyState:
  assumes "i < length (sockets r)"
  shows "n_unclosed (set_readyState i st r)
           + (if readyState (sockets r ! i) \<noteq> CLOSED then 1 else 0)
           = n_unclosed r + (if st \<noteq> CLOSED then 1 else 0)"
  using filter_update_length [OF assms, of "\<lambda>s. readyState s \<noteq> CLOSED"
          "(sockets r ! i)\<lparr>readyState := st\<rparr>"]
  by (simp add: n_unclosed_def set_readyState_def)

lemma n_unclosed_send:
  assumes "i < length (sockets r)"
  shows "n_unclosed (WebSocket_send i d r) = n_unclosed r"
  using filter_update_length [OF assms, of "\<lambda>s. readyState s \<noteq> CLOSED"
          "(sockets r ! i)\<lparr>sent := sent (sockets r ! i) @ [d]\<rparr>"]
  by (simp add: n_unclosed_def WebSocket_send_def split: if_splits)

lemma n_unclosed_close:
  "n_unclosed (WebSocket_close i r) = n_unclosed r"
proof (cases "i < length (sockets r)")
  case True
  show ?thesis
    using filter_update_length [OF True, of "\<lambda>s. readyState s \<noteq> CLOSED"
          "(sockets r ! i)\<lparr>readyState := CLOSING\<rparr>"]
    by (auto simp: n_unclosed_def WebSocket_close_def split: if_splits)
next
  case False
  then show ?thesis by (simp add: WebSocket_close_def)
qed

lemma n_unclosed_fields [simp]:
  "n_unclosed (r\<lparr>statuses := a\<rparr>) = n_unclosed r"
  "n_unclosed (r\<lparr>transcripts := b\<rparr>) = n_unclosed r"
  "n_unclosed (r\<lparr>timers := c\<rparr>) = n_unclosed r"
  "n_unclosed (r\<lparr>timeouts_set := d\<rparr>) = n_unclosed r"
  "n_unclosed (r\<lparr>reconnectTimer := e\<rparr>) = n_unclosed r"
  "n_unclosed (r\<lparr>shouldReconnect := f\<rparr>) = n_unclosed r"
  "n_unclosed (r\<lparr>ws := g\<rparr>) = n_unclosed r"
  "n_unclosed (r\<lparr>now := h\<rparr>) = n_unclosed r"
  by (simp_all add: n_unclosed_def)

lemma n_unclosed_zero_nth:
  assumes "n_unclosed r = 0" "i < length (sockets r)"
  shows "readyState (sockets r ! i) = CLOSED"
  using assms by (auto simp: n_unclosed_def filter_empty_conv)

lemma WebSocket_send_fields [simp]:
  "timers (WebSocket_send i d r) = timers r"
  "reconnectTimer (WebSocket_send i d r) = reconnectTimer r"
  by (simp_all add: WebSocket_send_def)

lemma timers_kept_filter:
  assumes "list_all (\<lambda>p. k = Some (fst p)) ts" "k = Some t"
  shows "filter (\<lambda>p. fst p \<noteq> t) ts = []"
  using assms by (induction ts) auto

lemma timers_kept_none:
  assumes "list_all (\<lambda>p. None = Some (fst p)) ts"
  shows "ts = []"
  using assms by (cases ts) auto

lemma timers_kept_map_of:
  assumes "list_all (\<lambda>p. k = Some (fst p)) ts" "map_of ts t = Some d"
  shows "k = Some t"
  using assms by (induction ts) (auto split: if_splits)

text \<open>On such an instance \<open>disconnect\<close> leaves no timer pending.\<close>

lemma well_kept_disconnect_timers:
  assumes "well_kept r"
  shows "timers (disconnect r) = []"
proof -
  from assms have kept: "list_all (\<lambda>p. reconnectTimer r = Some (fst p)) (timers r)"
    by (simp add: well_kept_def)
  show ?thesis
  proof (cases "reconnectTimer r")
    case None
    with kept have "timers r = []"
      using timers_kept_none [of "timers r"] by simp
    with None show ?thesis
      by (simp add: disconnect_def WebSocket_close_def Let_def split: option.splits)
  next
    case (Some t)
    from timers_kept_filter [OF kept Some]
    have "filter (\<lambda>p. fst p \<noteq> t) (timers r) = []" .
    with Some show ?thesis
      by (simp add: disconnect_def WebSocket_close_def clearTimeout_def Let_def
            split: option.splits)
  qed
qed

text \<open>Every method but \<open>connect\<close>, and every event, keeps the instance well kept.\<close>

lemma well_kept_step:
  assumes "well_kept r" and "e \<noteq> CallConnect"
  shows "well_kept (step parse e r)"
proof -
  from assms(1) have kept: "list_all (\<lambda>p. reconnectTimer r = Some (fst p)) (timers r)"
    by (simp add: well_kept_def)
  show ?thesis
  proof (cases e)
    case CallConnect
    with assms show ?thesis by simp
  next
    case (CallSendAudioChunk c)
    with assms show ?thesis
      by (auto simp: well_kept_def sendAudioChunk_def ws_readyState_def n_unclosed_send
            split: option.splits if_splits)
  next
    case (CallSendText t)
    with assms show ?thesis
      by (auto simp: well_kept_def sendText_def ws_readyState_def n_unclosed_send
            split: option.splits if_splits)
  next
    case CallDisconnect
    have n: "n_unclosed (disconnect r) = n_unclosed r"
      by (simp add: disconnect_def Let_def n_unclosed_close clearTimeout_def
            split: option.splits)
    from assms(1) well_kept_disconnect_timers [OF assms(1)] n CallDisconnect
    show ?thesis by (simp add: well_kept_def)
  next
    case (EvOpen i)
    show ?thesis
    proof (cases "i < length (sockets r) \<and> readyState (sockets r ! i) = CONNECTING")
      case True
      with n_unclosed_set_readyState [of i r OPEN]
      have "n_unclosed (set_readyState i OPEN r) = n_unclosed r" by simp
      with assms(1) True EvOpen show ?thesis
        by (simp add: well_kept_def onopen_def onStatus_def set_readyState_def)
    next
      case False
      with assms(1) EvOpen show ?thesis by auto
    qed
  next
    case (EvMessage i d)
    with assms(1) show ?thesis
      by (auto simp: well_kept_def onmessage_def onTranscript_def JSON_parse_def
            split: option.splits sum.splits)
  next
    case (EvError i)
    with assms(1) show ?thesis
      by (auto simp: well_kept_def onerror_def onStatus_def)
  next
    case (EvClose i)
    show ?thesis
    proof (cases "i < length (sockets r) \<and> readyState (sockets r ! i) \<noteq> CLOSED")
      case True
      with n_unclosed_set_readyState [of i r CLOSED]
      have s: "Suc (n_unclosed (set_readyState i CLOSED r)) = n_unclosed r" by simp
      with assms(1) have z: "n_unclosed (set_readyState i CLOSED r) = 0"
        and t: "timers r = []"
        by (auto simp: well_kept_def)
      from z t True EvClose show ?thesis
        by (simp add: well_kept_def onclose_def onStatus_def setTimeout_def
              set_readyState_def Let_def)
    next
      case False
      with assms(1) EvClose show ?thesis by auto
    qed
  next
    case (EvTimer t)
    show ?thesis
    proof (cases "timer_due t r")
      case True
      then obtain d where d: "map_of (timers r) t = Some d"
        by (auto simp: timer_due_def split: option.splits)
      from timers_kept_map_of [OF kept d] have k: "reconnectTimer r = Some t" .
      from timers_kept_filter [OF kept k]
      have f: "filter (\<lambda>p. fst p \<noteq> t) (timers r) = []" .
      from d have "timers r \<noteq> []" by auto
      with assms(1) have z: "n_unclosed r = 0" by (auto simp: well_kept_def)
      have "ws_readyState (clearTimeout t r) \<noteq> Some OPEN"
        using n_unclosed_zero_nth [OF z]
        by (auto simp: ws_readyState_def clearTimeout_def split: option.splits)
      with f z True EvTimer show ?thesis
        by (simp add: well_kept_def connect_def clearTimeout_def onStatus_def Let_def
              new_WebSocket_def n_unclosed_def)
    next
      case False
      with assms(1) EvTimer show ?thesis by simp
    qed
  next
    case (EvAdvance d)
    with assms(1) show ?thesis by (simp add: well_kept_def)
  qed
qed

lemma well_kept_run:
  assumes "well_kept r" and "CallConnect \<notin> set es"
  shows "well_kept (run parse es r)"
  using assms
proof (induction es arbitrary: r)
  case Nil
  then show ?case by simp
next
  case (Cons e es)
  from Cons.prems have "e \<noteq> CallConnect" and "CallConnect \<notin> set es" by auto
  with Cons.IH [OF well_kept_step [OF Cons.prems(1), of e parse]] show ?case by simp
qed

lemma well_kept_first_connect:
  "well_kept (connect (RelayWebSocket env_url mid pid))"
  by (simp add: well_kept_def n_unclosed_def relay_defs relay_start_defs Let_def)

text \<open>The live transports are among those not closed.\<close>

lemma length_filter_indices:
  "length (filter (\<lambda>i. P (xs ! i)) [0 ..< length xs]) = length (filter P xs)"
proof -
  have "filter P (map ((!) xs) [0 ..< length xs])
          = map ((!) xs) (filter (P \<circ> (!) xs) [0 ..< length xs])"
    by (rule filter_map)
  then have "length (filter P xs) = length (filter (P \<circ> (!) xs) [0 ..< length xs])"
    by (simp add: map_nth)
  then show ?thesis by (simp add: comp_def)
qed

lemma length_filter_mono:
  assumes "\<And>x. P x \<Longrightarrow> Q x"
  shows "length (filter P xs) \<le> length (filter Q xs)"
  using assms by (induction xs) auto

lemma live_transports_le_unclosed:
  "length (live_transports r) \<le> n_unclosed r"
proof -
  have "length (live_transports r)
          = length (filter (\<lambda>s. readyState s = CONNECTING \<or> readyState s = OPEN) (sockets r))"
    unfolding live_transports_def
    by (rule length_filter_indices
          [of "\<lambda>s. readyState s = CONNECTING \<or> readyState s = OPEN" "sockets r"])
  also have "\<dots> \<le> n_unclosed r"
    unfolding n_unclosed_def by (rule length_filter_mono) auto
  finally show ?thesis .
qed

text \<open>
  When the owner calls \<open>connect\<close> once, at the start, the instance never has two
  live transports, whatever else is called and whatever the browser delivers.
\<close>

lemma connect_once_one_live_transport:
  assumes "CallConnect \<notin> set es"
  shows "length (live_transports (run parse es (connect (RelayWebSocket env_url mid pid)))) \<le> 1"
proof -
  from well_kept_run [OF well_kept_first_connect assms]
  have "n_unclosed (run parse es (connect (RelayWebSocket env_url mid pid))) \<le> 1"
    by (simp add: well_kept_def)
  with live_transports_le_unclosed
         [of "run parse es (connect (RelayWebSocket env_url mid pid))"]
  show ?thesis by simp
qed

text \<open>With reconnection off and no timer pending, nothing opens a transport.\<close>

lemma quiet_step:
  assumes "\<not> shouldReconnect r" and "timers r = []" and "e \<noteq> CallConnect"
  shows "\<not> shouldReconnect (step parse e r) \<and> timers (step parse e r) = []
         \<and> length (sockets (step parse e r)) = length (sockets r)"
  using assms
  by (cases e) (auto simp: relay_defs Let_def split: option.splits sum.splits)

lemma quiet_run:
  assumes "\<not> shouldReconnect r" and "timers r = []" and "CallConnect \<notin> set es"
  shows "timers (run parse es r) = []
         \<and> length (sockets (run parse es r)) = length (sockets r)"
  using assms
proof (induction es arbitrary: r)
  case Nil
  then show ?case by simp
next
  case (Cons e es)
  from Cons.prems have ne: "e \<noteq> CallConnect" and rest: "CallConnect \<notin> set es" by auto
  from quiet_step [OF Cons.prems(1,2) ne, of parse]
  have q: "\<not> shouldReconnect (step parse e r)" "timers (step parse e r) = []"
    "length (sockets (step parse e r)) = length (sockets r)" by simp_all
  from Cons.IH [OF q(1) q(2) rest] q(3) show ?case by simp
qed

text \<open>
  When the owner calls \<open>connect\<close> once, \<open>disconnect\<close> cancels whatever reconnect is
  pending, and afterwards no timer is ever pending and no transport is ever opened.
\<close>

lemma connect_once_disconnect_is_final:
  assumes "CallConnect \<notin> set es" and "CallConnect \<notin> set es'"
  shows "timers (disconnect (run parse es (connect (RelayWebSocket env_url mid pid)))) = []"
    and "timers (run parse es'
           (disconnect (run parse es (connect (RelayWebSocket env_url mid pid))))) = []"
    and "length (sockets (run parse es'
           (disconnect (run parse es (connect (RelayWebSocket env_url mid pid))))))
         = length (sockets (run parse es (connect (RelayWebSocket env_url mid pid))))"
proof -
  let ?r = "run parse es (connect (RelayWebSocket env_url mid pid))"
  from well_kept_run [OF well_kept_first_connect assms(1)] have wk: "well_kept ?r" .
  from well_kept_disconnect_timers [OF wk] show t: "timers (disconnect ?r) = []" .
  have off: "\<not> shouldReconnect (disconnect ?r)"
    by (rule disconnect_turns_reconnect_off(1))
  have len: "length (sockets (disconnect ?r)) = length (sockets ?r)"
    by (simp add: disconnect_def WebSocket_close_def clearTimeout_def Let_def
          split: option.splits)
  from quiet_run [OF off t assms(2), of parse] len
  show "timers (run parse es' (disconnect ?r)) = []"
    and "length (sockets (run parse es' (disconnect ?r))) = length (sockets ?r)"
    by simp_all
qed

section \<open>Properties of the token store, the gateway client and the auth context\<close>

lemmas storage_defs =
  getToken_def setToken_def clearToken_def localStorage_access_def localStorage_getItem_def
  localStorage_setItem_def localStorage_removeItem_def

lemmas cookie_defs =
  setCookie_def deleteCookie_def document_cookie_assign_def cookie_value_def

lemma apiFetch_keeps_storage:
  "window_defined (snd (apiFetch pf path opts b)) = window_defined b"
  "storage_blocked (snd (apiFetch pf path opts b)) = storage_blocked b"
  "localStorage (snd (apiFetch pf path opts b)) = localStorage b"
  "cookie_jar (snd (apiFetch pf path opts b)) = cookie_jar b"
  "clock (snd (apiFetch pf path opts b)) = clock b"
  by (auto simp: apiFetch_def apiFetch_request_def Let_def split: sum.splits option.splits)

subsection \<open>Outside a browser\<close>

text \<open>\<open>getToken\<close> throws only in a browser that blocks storage.\<close>

lemma getToken_outcome:
  "getToken b =
     (if window_defined b \<and> storage_blocked b then Inl SecurityError
      else Inr (if window_defined b then localStorage b TOKEN_KEY else None))"
  by (simp add: storage_defs)

text \<open>The other two token helpers have no guard for a missing \<open>window\<close>.\<close>

lemma setToken_clearToken_throw_outside_browser:
  assumes "\<not> window_defined b"
  shows "setToken pf t b = Inl ReferenceError" and "clearToken b = Inl ReferenceError"
  using assms by (simp_all add: storage_defs)

text \<open>
  Claim C10. With \<open>window\<close> undefined, \<open>getToken\<close> returns \<open>null\<close> and does not
  throw; \<open>apiFetch\<close> then builds its request without throwing, whatever \<open>auth\<close> is,
  and the headers are the default content type and those the caller passed: an
  \<open>Authorization\<close> header is in the request only if the caller put it there.
\<close>

theorem no_window_no_authorization_header:
  assumes "\<not> window_defined b"
  shows "getToken b = Inr None
     \<and> apiFetch_headers b opts
         = Inr ([''Content-Type'' \<mapsto> ''application/json'']
                 ++ (case opt_headers opts of None \<Rightarrow> Map.empty | Some h \<Rightarrow> h))
     \<and> (\<exists>req. apiFetch_request pf b path opts = Inr req
            \<and> req_headers req ''Authorization''
                = (case opt_headers opts of None \<Rightarrow> None | Some h \<Rightarrow> h ''Authorization''))"
  using assms
  by (auto simp: storage_defs apiFetch_headers_def apiFetch_request_def Let_def map_add_def
       split: option.splits)

theorem no_window_no_authorization_header_witness:
  "\<not> window_defined
       \<lparr>window_defined = False, storage_blocked = False, storage_full = False,
        NEXT_PUBLIC_API_URL = None, localStorage = Map.empty,
        cookie_jar = Map.empty, clock = 1000, fetched = []\<rparr>
   \<and> getToken
       \<lparr>window_defined = False, storage_blocked = False, storage_full = False,
        NEXT_PUBLIC_API_URL = None, localStorage = Map.empty,
        cookie_jar = Map.empty, clock = 1000, fetched = []\<rparr> = Inr None
   \<and> (\<exists>req. apiFetch_request
          \<lparr>JSON_stringify = (\<lambda>j. ''{}''), Number_toString = (\<lambda>n. ''0''),
           encodeURIComponent = (\<lambda>s. s),
           fetch = (\<lambda>earlier r. Inr \<lparr>status = 200, json_body = Some (JArr [])\<rparr>)\<rparr>
          \<lparr>window_defined = False, storage_blocked = False, storage_full = False,
        NEXT_PUBLIC_API_URL = None, localStorage = Map.empty,
           cookie_jar = Map.empty, clock = 1000, fetched = []\<rparr>
          ''/meetings/''
          \<lparr>opt_method = None, opt_headers = None, opt_body = None, opt_auth = Some True\<rparr>
        = Inr req
      \<and> req_headers req ''Authorization'' = None)"
proof -
  let ?b = "\<lparr>window_defined = False, storage_blocked = False, storage_full = False,
        NEXT_PUBLIC_API_URL = None, localStorage = Map.empty,
             cookie_jar = Map.empty, clock = 1000, fetched = []\<rparr>"
  have h: "\<not> window_defined ?b" by simp
  from h no_window_no_authorization_header [OF h,
      of "\<lparr>opt_method = None, opt_headers = None, opt_body = None, opt_auth = Some True\<rparr>"
         "\<lparr>JSON_stringify = (\<lambda>j. ''{}''), Number_toString = (\<lambda>n. ''0''),
           encodeURIComponent = (\<lambda>s. s),
           fetch = (\<lambda>earlier r. Inr \<lparr>status = 200, json_body = Some (JArr [])\<rparr>)\<rparr>"
         "''/meetings/''"]
  show ?thesis by simp
qed


subsection \<open>Login, logout and restore\<close>

text \<open>
  When \<open>login\<close> resolves, the token is in both places: in \<open>localStorage\<close> under
  \<open>TOKEN_KEY\<close> and, URI-encoded, in the cookie \<open>relay_token\<close>.
\<close>

lemma login_stores_credential_twice:
  assumes "login pf em pw st = (Inr (), st')"
  shows "\<exists>t. localStorage (env st') TOKEN_KEY = Some t
            \<and> cookie_value ''relay_token'' (env st') = Some (encodeURIComponent pf t)"
proof -
  obtain r1 b1 where lc: "loginCompany pf em pw (env st) = (r1, b1)" by force
  from assms lc obtain tokenData where r1: "r1 = Inr tokenData"
    by (cases r1) (auto simp: login_def)
  from assms lc r1 obtain access_token where
    m: "get_member tokenData ''access_token'' = Inr access_token"
    by (cases "get_member tokenData ''access_token''") (auto simp: login_def)
  from assms lc r1 m obtain b2 where st: "setToken pf access_token b1 = Inr b2"
    by (cases "setToken pf access_token b1") (auto simp: login_def)
  from st obtain t where t: "to_string pf access_token = Inr t"
    and ls: "localStorage b2 TOKEN_KEY = Some t"
    by (auto simp: storage_defs split: if_splits sum.splits)
  let ?b3 = "document_cookie_assign ''relay_token'' (encodeURIComponent pf t)
               ((clock b2 + 43200000) div 1000 * 1000) ''/'' b2"
  from t have sc: "setCookie pf ''relay_token'' access_token b2 = Inr ?b3"
    by (simp add: setCookie_def)
  obtain r4 b4 where gm: "getMe pf ?b3 = (r4, b4)" by force
  from assms lc r1 m st sc gm have e: "env st' = b4"
    by (cases r4) (auto simp: login_def)
  from gm apiFetch_keeps_storage [of pf "''/auth/me''" no_options ?b3]
  have keep: "localStorage b4 = localStorage ?b3" "cookie_jar b4 = cookie_jar ?b3"
    "clock b4 = clock ?b3"
    by (simp_all add: getMe_def)
  have later: "clock b2 < (clock b2 + 43200000) div 1000 * 1000" by arith
  have "localStorage ?b3 TOKEN_KEY = Some t"
    using ls later by (simp add: document_cookie_assign_def)
  moreover have "cookie_value ''relay_token'' ?b3 = Some (encodeURIComponent pf t)"
    using later by (simp add: document_cookie_assign_def cookie_value_def)
  moreover have "cookie_value ''relay_token'' b4 = cookie_value ''relay_token'' ?b3"
    by (simp add: cookie_value_def keep split: option.splits)
  ultimately show ?thesis using e keep(1) by simp
qed

text \<open>
  Claim C7. In a browser that lets the page use storage \<open>logout\<close> returns, and
  whenever it returns: \<open>localStorage\<close> has no token (\<open>getToken\<close> gives \<open>null\<close>), the
  cookie \<open>relay_token\<close> is gone, \<open>user\<close> is \<open>null\<close>, and \<open>fetch\<close> was not called.
  \<open>logout\<close> is an ordinary function, not a promise: its result is the state after
  it.
\<close>

theorem logout_clears_both_stores:
  "(window_defined (env st) \<and> \<not> storage_blocked (env st)
       \<longrightarrow> (\<exists>st'. logout st = Inr st'))
   \<and> (\<forall>st'. logout st = Inr st' \<longrightarrow>
         localStorage (env st') TOKEN_KEY = None
       \<and> getToken (env st') = Inr None
       \<and> cookie_value ''relay_token'' (env st') = None
       \<and> user st' = Some JNull
       \<and> \<not> isAuthenticated st'
       \<and> fetched (env st') = fetched (env st))"
  by (auto simp: logout_def storage_defs cookie_defs isAuthenticated_def truthy_def
       split: if_splits)

theorem logout_clears_both_stores_witness:
  "window_defined (env
      \<lparr>user = Some (JObj [(''email'', JStr ''a@b.com'')]), isLoading = False,
       env = \<lparr>window_defined = True, storage_blocked = False, storage_full = False,
        NEXT_PUBLIC_API_URL = None,
              localStorage = [TOKEN_KEY \<mapsto> ''tok''],
              cookie_jar = [(''relay_token'', ''/'') \<mapsto> (''tok'', 43201000)],
              clock = 5000, fetched = []\<rparr>\<rparr>)
   \<and> \<not> storage_blocked (env
      \<lparr>user = Some (JObj [(''email'', JStr ''a@b.com'')]), isLoading = False,
       env = \<lparr>window_defined = True, storage_blocked = False, storage_full = False,
        NEXT_PUBLIC_API_URL = None,
              localStorage = [TOKEN_KEY \<mapsto> ''tok''],
              cookie_jar = [(''relay_token'', ''/'') \<mapsto> (''tok'', 43201000)],
              clock = 5000, fetched = []\<rparr>\<rparr>)
   \<and> (case logout
      \<lparr>user = Some (JObj [(''email'', JStr ''a@b.com'')]), isLoading = False,
       env = \<lparr>window_defined = True, storage_blocked = False, storage_full = False,
        NEXT_PUBLIC_API_URL = None,
              localStorage = [TOKEN_KEY \<mapsto> ''tok''],
              cookie_jar = [(''relay_token'', ''/'') \<mapsto> (''tok'', 43201000)],
              clock = 5000, fetched = []\<rparr>\<rparr> of
        Inl e \<Rightarrow> False
      | Inr st' \<Rightarrow>
          localStorage (env st') TOKEN_KEY = None
        \<and> cookie_value ''relay_token'' (env st') = None
        \<and> user st' = Some JNull
        \<and> fetched (env st') = [])"
proof -
  let ?st = "\<lparr>user = Some (JObj [(''email'', JStr ''a@b.com'')]), isLoading = False,
       env = \<lparr>window_defined = True, storage_blocked = False, storage_full = False,
        NEXT_PUBLIC_API_URL = None,
              localStorage = [TOKEN_KEY \<mapsto> ''tok''],
              cookie_jar = [(''relay_token'', ''/'') \<mapsto> (''tok'', 43201000)],
              clock = 5000, fetched = []\<rparr>\<rparr>"
  have w: "window_defined (env ?st) \<and> \<not> storage_blocked (env ?st)" by simp
  with logout_clears_both_stores [of ?st] obtain st' where r: "logout ?st = Inr st'"
    by blast
  with logout_clears_both_stores [of ?st]
  have "localStorage (env st') TOKEN_KEY = None
        \<and> cookie_value ''relay_token'' (env st') = None
        \<and> user st' = Some JNull
        \<and> fetched (env st') = []"
    by simp
  with w r show ?thesis by simp
qed

text \<open>
  In a browser that lets the page use storage the effect always ends the loading
  state.
\<close>

lemma restore_ends_loading:
  assumes "window_defined (env st)" and "\<not> storage_blocked (env st)"
  shows "\<exists>st'. restore pf st = Inr st' \<and> \<not> isLoading st'"
proof (cases "getMe pf (env st)")
  case (Pair res b)
  with apiFetch_keeps_storage(1,2) [of pf "''/auth/me''" no_options "env st"] assms
  have "window_defined b" "\<not> storage_blocked b" by (simp_all add: getMe_def)
  with Pair assms show ?thesis
    by (auto simp: restore_def storage_defs split: sum.splits)
qed

text \<open>
  With a token stored and the identity fetch failing, the effect removes the token
  from \<open>localStorage\<close>, leaves \<open>user\<close> as it was, and does not touch the cookies.
\<close>

lemma restore_on_failed_identity_fetch:
  assumes "window_defined (env st)" and "\<not> storage_blocked (env st)"
      and "localStorage (env st) TOKEN_KEY = Some t" and "t \<noteq> []"
      and "fst (getMe pf (env st)) = Inl e"
  shows "\<exists>st'. restore pf st = Inr st'
           \<and> localStorage (env st') TOKEN_KEY = None
           \<and> cookie_jar (env st') = cookie_jar (env st)
           \<and> user st' = user st \<and> \<not> isLoading st'"
proof (cases "getMe pf (env st)")
  case (Pair res b)
  with apiFetch_keeps_storage [of pf "''/auth/me''" no_options "env st"] assms
  have "window_defined b" "\<not> storage_blocked b" "cookie_jar b = cookie_jar (env st)"
    "res = Inl e"
    by (simp_all add: getMe_def)
  with Pair assms show ?thesis
    by (auto simp: restore_def storage_defs split: sum.splits)
qed

text \<open>
  Claim C6. When the identity fetch fails, the credential is meant to be gone from
  both stores, as after \<open>logout\<close>. The handler of \<open>catch\<close> calls \<open>clearToken\<close> only
  and never \<open>deleteCookie\<close>. Below, a page loads with the token \<open>tok\<close> in
  \<open>localStorage\<close> and in the cookie (as \<open>login\<close> left them) and the backend answers
  \<open>/auth/me\<close> with 401: afterwards loading has ended, \<open>user\<close> is \<open>null\<close> and
  \<open>localStorage\<close> has no token, but the cookie still holds \<open>tok\<close>, so the route guard
  goes on treating the visitor as logged in and sends \<open>/login\<close> to \<open>/dashboard\<close>.
\<close>

theorem restore_failure_leaves_cookie:
  "(case restore
      \<lparr>JSON_stringify = (\<lambda>j. ''{}''), Number_toString = (\<lambda>n. ''0''), encodeURIComponent = (\<lambda>s. s),
       fetch = (\<lambda>earlier r. Inr \<lparr>status = 401,
                  json_body = Some (JObj [(''detail'', JStr ''Could not validate credentials'')])\<rparr>)\<rparr>
      (AuthProvider
        \<lparr>window_defined = True, storage_blocked = False, storage_full = False,
        NEXT_PUBLIC_API_URL = None,
         localStorage = [TOKEN_KEY \<mapsto> ''tok''],
         cookie_jar = [(''relay_token'', ''/'') \<mapsto> (''tok'', 43201000)],
         clock = 5000, fetched = []\<rparr>) of
      Inl e \<Rightarrow> False
    | Inr st' \<Rightarrow>
        \<not> isLoading st'
      \<and> user st' = Some JNull
      \<and> localStorage (env st') TOKEN_KEY = None
      \<and> cookie_value ''relay_token'' (env st') = Some ''tok''
      \<and> middleware ''/login'' (cookie_value ''relay_token'' (env st')) = Redirect_to_dashboard)"
  by (simp add: restore_def getMe_def apiFetch_def apiFetch_request_def apiFetch_headers_def
        no_options_def ok_def storage_defs cookie_defs AuthProvider_def Let_def
        not_ok_error_def error_detail_def throw_new_Error_def to_string_def get_member_def
        middleware_def AUTH_PATHS_def PROTECTED_PATHS_def startsWith_def)


subsection \<open>Outcome of a request\<close>


text \<open>
  Strings, numbers and booleans always convert; an object does unless it has a member
  named \<open>toString\<close>.
\<close>

lemma to_string_scalars:
  "to_string pf (Some (JStr s)) = Inr s"
  "to_string pf (Some (JNum n)) = Inr (Number_toString pf n)"
  "to_string pf (Some (JBool t)) = Inr (if t then ''true'' else ''false'')"
  "to_string pf (Some (JObj members))
     = (if map_of members ''toString'' = None then Inr ''[object Object]'' else Inl TypeError)"
  by (simp_all add: to_string_def)




section \<open>Properties of the session controller\<close>

lemmas init_defs =
  init_def init_roster_def init_link_def init_host_def called_def joinMeeting_calls_def
  localStorage_getItem_def localStorage_access_def

text \<open>
  Claim C3. Once the meeting has been found by its code, \<open>init\<close> takes one of three
  branches.

  With a participant id in the URL (a non-empty string): the result is the same with
  or without a user; the id becomes the page's participant id and the page is not the
  host; the only calls made are the meeting lookup and the roster (no company lookup,
  no participant-create), and no company and no error is set. \<open>init\<close> then reads the
  stored name: where the browser lets it, \<open>init\<close> goes on with that id, under the
  stored name or \<open>Participant\<close>; where reading storage throws, \<open>init\<close> rejects with
  that exception.

  Without one and with a user: after the lookup and the roster the company is
  fetched and \<open>joinMeeting\<close> is called, exactly once, under the host's name (the name
  of the user's company, or the user's email when the company cannot be fetched).
  When it succeeds, \<open>init\<close> goes on with the id of the participant created, which
  becomes the page's participant id, the page is the host and the display name is the
  host's name; when it fails, \<open>init\<close> rejects with its error and the page has no
  participant id.

  Without either: \<open>init\<close> returns with the error \<open>Please log in to start a meeting\<close>,
  no participant id, and no call beyond the lookup and the roster.
\<close>

theorem init_resolves_participant:
  assumes "getMeetingByCode be code = Inr m"
  shows "(pid \<noteq> None \<and> pid \<noteq> Some [] \<longrightarrow>
            init be b code pid usr rm = init be b code pid None rm
          \<and> room_participantId (snd (init be b code pid usr rm)) = pid
          \<and> isHost (snd (init be b code pid usr rm)) = False
          \<and> company (snd (init be b code pid usr rm)) = company rm
          \<and> error (snd (init be b code pid usr rm)) = error rm
          \<and> api_calls (snd (init be b code pid usr rm))
              = api_calls rm @ [Call_getMeetingByCode code, Call_listParticipants (Meeting_id m)]
          \<and> (window_defined b \<and> \<not> storage_blocked b \<longrightarrow>
                fst (init be b code pid usr rm) = Continue (the pid)
              \<and> displayName (snd (init be b code pid usr rm))
                  = (case localStorage b ''relay_participant_name'' of
                       None \<Rightarrow> ''Participant''
                     | Some n \<Rightarrow> if n = [] then ''Participant'' else n))
          \<and> (\<forall>e. localStorage_getItem ''relay_participant_name'' b = Inl e \<longrightarrow>
                fst (init be b code pid usr rm) = Rejected e
              \<and> displayName (snd (init be b code pid usr rm)) = displayName rm))
       \<and> (\<forall>u. (pid = None \<or> pid = Some []) \<and> usr = Some u \<longrightarrow>
            (let hostName = (case getMyCompany be of
                               Inr c \<Rightarrow> Company_name c
                             | Inl _ \<Rightarrow> email u);
                 data = \<lparr>meeting_id = Meeting_id m, name = hostName,
                          preferred_language = ''en'', is_registered = True\<rparr>
             in api_calls (snd (init be b code pid usr rm))
                  = api_calls rm @ [Call_getMeetingByCode code,
                                    Call_listParticipants (Meeting_id m),
                                    Call_getMyCompany, Call_joinMeeting data]
              \<and> joinMeeting_calls (snd (init be b code pid usr rm))
                  = joinMeeting_calls rm @ [data]
              \<and> error (snd (init be b code pid usr rm)) = error rm
              \<and> company (snd (init be b code pid usr rm))
                  = Some (case getMyCompany be of
                            Inr c \<Rightarrow> c
                          | Inl _ \<Rightarrow> \<lparr>Company_id = [], Company_name = email u,
                                        Company_email = email u, Company_is_active = True\<rparr>)
              \<and> (\<forall>p. joinMeeting be data = Inr p \<longrightarrow>
                    fst (init be b code pid usr rm) = Continue (Participant_id p)
                  \<and> room_participantId (snd (init be b code pid usr rm))
                      = Some (Participant_id p)
                  \<and> isHost (snd (init be b code pid usr rm))
                  \<and> displayName (snd (init be b code pid usr rm)) = hostName)
              \<and> (\<forall>e. joinMeeting be data = Inl e \<longrightarrow>
                    fst (init be b code pid usr rm) = Rejected e
                  \<and> room_participantId (snd (init be b code pid usr rm))
                      = room_participantId rm
                  \<and> isHost (snd (init be b code pid usr rm)) = isHost rm
                  \<and> displayName (snd (init be b code pid usr rm)) = displayName rm)))
       \<and> ((pid = None \<or> pid = Some []) \<and> usr = None \<longrightarrow>
            fst (init be b code pid usr rm) = Returned
          \<and> error (snd (init be b code pid usr rm)) = Some ''Please log in to start a meeting''
          \<and> room_participantId (snd (init be b code pid usr rm)) = room_participantId rm
          \<and> isHost (snd (init be b code pid usr rm)) = isHost rm
          \<and> displayName (snd (init be b code pid usr rm)) = displayName rm
          \<and> company (snd (init be b code pid usr rm)) = company rm
          \<and> api_calls (snd (init be b code pid usr rm))
              = api_calls rm @ [Call_getMeetingByCode code, Call_listParticipants (Meeting_id m)]
          \<and> joinMeeting_calls (snd (init be b code pid usr rm)) = joinMeeting_calls rm)"
proof -
  have link: "?thesis" if "pid \<noteq> None \<and> pid \<noteq> Some []"
    using assms that
    by (auto simp: init_defs Let_def split: sum.splits option.splits)
  have host: "?thesis" if "pid = None \<or> pid = Some []" "usr = Some u" for u
    using assms that
    by (auto simp: init_defs Let_def split: sum.splits option.splits prod.splits)
  have none: "?thesis" if "pid = None \<or> pid = Some []" "usr = None"
    using assms that
    by (auto simp: init_defs Let_def split: sum.splits option.splits)
  from link host none show ?thesis by (cases usr) blast+
qed

theorem init_resolves_participant_witness:
  "fst (init
      \<lparr>getMeetingByCode = (\<lambda>c. if c = ''ABC123''
           then Inr \<lparr>Meeting_id = ''m1'', Meeting_code = ''ABC123'', Meeting_title = ''Weekly''\<rparr>
           else Inl (Error ''Meeting not found'')),
       listParticipants = (\<lambda>i. Inr []),
       getMyCompany = Inl (Error ''HTTP 401''),
       joinMeeting = (\<lambda>d. Inl (Error ''HTTP 500''))\<rparr>
      \<lparr>window_defined = True, storage_blocked = False, storage_full = False,
       NEXT_PUBLIC_API_URL = None,
       localStorage = Map.empty, cookie_jar = Map.empty, clock = 5000, fetched = []\<rparr>
      ''ABC123'' (Some ''p-42'') None RoomPageContent) = Continue ''p-42''
   \<and> room_participantId (snd (init
      \<lparr>getMeetingByCode = (\<lambda>c. if c = ''ABC123''
           then Inr \<lparr>Meeting_id = ''m1'', Meeting_code = ''ABC123'', Meeting_title = ''Weekly''\<rparr>
           else Inl (Error ''Meeting not found'')),
       listParticipants = (\<lambda>i. Inr []),
       getMyCompany = Inl (Error ''HTTP 401''),
       joinMeeting = (\<lambda>d. Inl (Error ''HTTP 500''))\<rparr>
      \<lparr>window_defined = True, storage_blocked = False, storage_full = False,
       NEXT_PUBLIC_API_URL = None,
       localStorage = Map.empty, cookie_jar = Map.empty, clock = 5000, fetched = []\<rparr>
      ''ABC123'' (Some ''p-42'') None RoomPageContent)) = Some ''p-42''
   \<and> api_calls (snd (init
      \<lparr>getMeetingByCode = (\<lambda>c. if c = ''ABC123''
           then Inr \<lparr>Meeting_id = ''m1'', Meeting_code = ''ABC123'', Meeting_title = ''Weekly''\<rparr>
           else Inl (Error ''Meeting not found'')),
       listParticipants = (\<lambda>i. Inr []),
       getMyCompany = Inl (Error ''HTTP 401''),
       joinMeeting = (\<lambda>d. Inl (Error ''HTTP 500''))\<rparr>
      \<lparr>window_defined = True, storage_blocked = False, storage_full = False,
       NEXT_PUBLIC_API_URL = None,
       localStorage = Map.empty, cookie_jar = Map.empty, clock = 5000, fetched = []\<rparr>
      ''ABC123'' (Some ''p-42'') None RoomPageContent))
     = [Call_getMeetingByCode ''ABC123'', Call_listParticipants ''m1'']
   \<and> fst (init
      \<lparr>getMeetingByCode = (\<lambda>c. if c = ''ABC123''
           then Inr \<lparr>Meeting_id = ''m1'', Meeting_code = ''ABC123'', Meeting_title = ''Weekly''\<rparr>
           else Inl (Error ''Meeting not found'')),
       listParticipants = (\<lambda>i. Inr []),
       getMyCompany = Inr \<lparr>Company_id = ''c1'', Company_name = ''Acme'',
                            Company_email = ''a@b.com'', Company_is_active = True\<rparr>,
       joinMeeting = (\<lambda>d. Inr \<lparr>Participant_id = ''p-1'', Participant_meeting_id = meeting_id d,
                                Participant_name = name d\<rparr>)\<rparr>
      \<lparr>window_defined = True, storage_blocked = False, storage_full = False,
       NEXT_PUBLIC_API_URL = None,
       localStorage = Map.empty, cookie_jar = Map.empty, clock = 5000, fetched = []\<rparr>
      ''ABC123'' None
      (Some \<lparr>email = ''a@b.com'', role = ''company'', entity_id = ''c1''\<rparr>) RoomPageContent)
     = Continue ''p-1''
   \<and> room_participantId (snd (init
      \<lparr>getMeetingByCode = (\<lambda>c. if c = ''ABC123''
           then Inr \<lparr>Meeting_id = ''m1'', Meeting_code = ''ABC123'', Meeting_title = ''Weekly''\<rparr>
           else Inl (Error ''Meeting not found'')),
       listParticipants = (\<lambda>i. Inr []),
       getMyCompany = Inr \<lparr>Company_id = ''c1'', Company_name = ''Acme'',
                            Company_email = ''a@b.com'', Company_is_active = True\<rparr>,
       joinMeeting = (\<lambda>d. Inr \<lparr>Participant_id = ''p-1'', Participant_meeting_id = meeting_id d,
                                Participant_name = name d\<rparr>)\<rparr>
      \<lparr>window_defined = True, storage_blocked = False, storage_full = False,
       NEXT_PUBLIC_API_URL = None,
       localStorage = Map.empty, cookie_jar = Map.empty, clock = 5000, fetched = []\<rparr>
      ''ABC123'' None
      (Some \<lparr>email = ''a@b.com'', role = ''company'', entity_id = ''c1''\<rparr>) RoomPageContent))
     = Some ''p-1''
   \<and> joinMeeting_calls (snd (init
      \<lparr>getMeetingByCode = (\<lambda>c. if c = ''ABC123''
           then Inr \<lparr>Meeting_id = ''m1'', Meeting_code = ''ABC123'', Meeting_title = ''Weekly''\<rparr>
           else Inl (Error ''Meeting not found'')),
       listParticipants = (\<lambda>i. Inr []),
       getMyCompany = Inr \<lparr>Company_id = ''c1'', Company_name = ''Acme'',
                            Company_email = ''a@b.com'', Company_is_active = True\<rparr>,
       joinMeeting = (\<lambda>d. Inr \<lparr>Participant_id = ''p-1'', Participant_meeting_id = meeting_id d,
                                Participant_name = name d\<rparr>)\<rparr>
      \<lparr>window_defined = True, storage_blocked = False, storage_full = False,
       NEXT_PUBLIC_API_URL = None,
       localStorage = Map.empty, cookie_jar = Map.empty, clock = 5000, fetched = []\<rparr>
      ''ABC123'' None
      (Some \<lparr>email = ''a@b.com'', role = ''company'', entity_id = ''c1''\<rparr>) RoomPageContent))
     = [\<lparr>meeting_id = ''m1'', name = ''Acme'', preferred_language = ''en'',
         is_registered = True\<rparr>]
   \<and> fst (init
      \<lparr>getMeetingByCode = (\<lambda>c. if c = ''ABC123''
           then Inr \<lparr>Meeting_id = ''m1'', Meeting_code = ''ABC123'', Meeting_title = ''Weekly''\<rparr>
           else Inl (Error ''Meeting not found'')),
       listParticipants = (\<lambda>i. Inr []),
       getMyCompany = Inl (Error ''HTTP 401''),
       joinMeeting = (\<lambda>d. Inl (Error ''HTTP 500''))\<rparr>
      \<lparr>window_defined = True, storage_blocked = False, storage_full = False,
       NEXT_PUBLIC_API_URL = None,
       localStorage = Map.empty, cookie_jar = Map.empty, clock = 5000, fetched = []\<rparr>
      ''ABC123'' None None RoomPageContent) = Returned"
proof -
  let ?m = "\<lparr>Meeting_id = ''m1'', Meeting_code = ''ABC123'', Meeting_title = ''Weekly''\<rparr>"
  let ?find = "\<lambda>c. if c = ''ABC123'' then Inr ?m else Inl (Error ''Meeting not found'')"
  let ?down = "\<lparr>getMeetingByCode = ?find, listParticipants = (\<lambda>i. Inr []),
                 getMyCompany = Inl (Error ''HTTP 401''),
                 joinMeeting = (\<lambda>d. Inl (Error ''HTTP 500''))\<rparr>"
  let ?up = "\<lparr>getMeetingByCode = ?find, listParticipants = (\<lambda>i. Inr []),
       getMyCompany = Inr \<lparr>Company_id = ''c1'', Company_name = ''Acme'',
                            Company_email = ''a@b.com'', Company_is_active = True\<rparr>,
       joinMeeting = (\<lambda>d. Inr \<lparr>Participant_id = ''p-1'', Participant_meeting_id = meeting_id d,
                                Participant_name = name d\<rparr>)\<rparr>"
  let ?b = "\<lparr>window_defined = True, storage_blocked = False, storage_full = False,
       NEXT_PUBLIC_API_URL = None,
             localStorage = Map.empty, cookie_jar = Map.empty, clock = 5000,
             fetched = []\<rparr>"
  let ?u = "\<lparr>email = ''a@b.com'', role = ''company'', entity_id = ''c1''\<rparr>"
  have down: "getMeetingByCode ?down ''ABC123'' = Inr ?m" by simp
  have up: "getMeetingByCode ?up ''ABC123'' = Inr ?m" by simp
  have link: "fst (init ?down ?b ''ABC123'' (Some ''p-42'') None RoomPageContent)
                = Continue ''p-42''
              \<and> room_participantId
                  (snd (init ?down ?b ''ABC123'' (Some ''p-42'') None RoomPageContent))
                = Some ''p-42''
              \<and> api_calls (snd (init ?down ?b ''ABC123'' (Some ''p-42'') None RoomPageContent))
                = [Call_getMeetingByCode ''ABC123'', Call_listParticipants ''m1'']"
    using init_resolves_participant [OF down, of "Some ''p-42''" ?b None RoomPageContent]
    by (simp add: RoomPageContent_def)
  have host: "fst (init ?up ?b ''ABC123'' None (Some ?u) RoomPageContent) = Continue ''p-1''
              \<and> room_participantId (snd (init ?up ?b ''ABC123'' None (Some ?u) RoomPageContent))
                = Some ''p-1''
              \<and> joinMeeting_calls (snd (init ?up ?b ''ABC123'' None (Some ?u) RoomPageContent))
                = [\<lparr>meeting_id = ''m1'', name = ''Acme'', preferred_language = ''en'',
                    is_registered = True\<rparr>]"
    using init_resolves_participant [OF up, of None ?b "Some ?u" RoomPageContent]
    by (simp add: RoomPageContent_def joinMeeting_calls_def Let_def)
  have none: "fst (init ?down ?b ''ABC123'' None None RoomPageContent) = Returned"
    using init_resolves_participant [OF down, of None ?b None RoomPageContent]
    by simp
  from link host none show ?thesis by simp
qed

end
